theory Spec2Isabelle
  imports Complex_Main "HOL-Library.AList" "HOL-Library.Multiset"
begin

section \<open>Filter lists: list types, construction and the relevance resolver\<close>

text \<open>
  A shallow embedding of \<^verbatim>\<open>bot/exts/filtering/_filter_lists/filter_list.py\<close>:
  the \<^verbatim>\<open>ListType\<close> enumeration, \<^verbatim>\<open>ListTypeConverter.convert\<close>,
  \<^verbatim>\<open>FilterList.add_list\<close> and \<^verbatim>\<open>FilterList.filter_list_result\<close>.
\<close>

subsection \<open>List types\<close>

text \<open>\<^verbatim>\<open>class ListType(Enum)\<close>: \<^verbatim>\<open>DENY = 0\<close>, \<^verbatim>\<open>ALLOW = 1\<close>.\<close>

datatype ListType = DENY | ALLOW

subsection \<open>Validation settings and filters\<close>

text \<open>
  Modelled from the spec: the class \<^verbatim>\<open>ValidationSettings\<close> and its method
  \<^verbatim>\<open>evaluate\<close> live in \<^verbatim>\<open>bot.exts.filtering._settings\<close>, which is not
  among the sources. The spec describes a validation-rule set as named boolean predicates
  over a context (names are unique keys), and the outcome of evaluating it as a pair
  (set of passed rule names, set of failed rule names) in which every rule appears in
  exactly one of the two sets.
\<close>

type_synonym 'ctx ValidationSettings = "(string \<times> ('ctx \<Rightarrow> bool)) list"

definition evaluate :: "'ctx ValidationSettings \<Rightarrow> 'ctx \<Rightarrow> string set \<times> string set" where
  "evaluate settings ctx =
     (set (map fst (filter (\<lambda>entry. snd entry ctx) settings)),
      set (map fst (filter (\<lambda>entry. \<not> snd entry ctx) settings)))"

text \<open>
  Modelled from the spec: the class \<^verbatim>\<open>Filter\<close> lives in
  \<^verbatim>\<open>bot.exts.filtering._filters.filter\<close>, which is not among the sources. The
  resolver reads two attributes of a filter: \<^verbatim>\<open>validations\<close> (the optional
  override rule set) and \<^verbatim>\<open>triggered_on\<close> (the trigger predicate). The spec adds
  an opaque identity. An absent override set is \<open>None\<close>; a present one, empty or not, is
  \<open>Some\<close>.
\<close>

record 'ctx Filter =
  filter_id :: nat
  triggered_on :: "'ctx \<Rightarrow> bool"
  validations :: "'ctx ValidationSettings option"

subsection \<open>The relevance resolver\<close>

text \<open>
  The test \<^verbatim>\<open>not filter_.validations\<close> of the source asks Python for the truth
  value of the attribute. \<^verbatim>\<open>None\<close> is false. The truth value of a
  \<^verbatim>\<open>ValidationSettings\<close> object is decided by its class (by \<^verbatim>\<open>__bool__\<close> or
  \<^verbatim>\<open>__len__\<close>, and true when the class defines neither), which is not among the
  sources: it is the parameter \<open>truthy\<close> of the model.

  The body of the \<^verbatim>\<open>for filter_ in filters\<close> loop of \<^verbatim>\<open>filter_list_result\<close>:
  whether \<^verbatim>\<open>filter_\<close> is appended to \<^verbatim>\<open>relevant_filters\<close>. The first branch
  is taken when \<^verbatim>\<open>filter_.validations\<close> is \<^verbatim>\<open>None\<close> or a false object.
  Python's \<^verbatim>\<open>not failed\<close> on a set is emptiness, and \<^verbatim>\<open><\<close> on two sets is the
  proper subset relation.
\<close>

definition is_relevant ::
    "('ctx ValidationSettings \<Rightarrow> bool) \<Rightarrow> 'ctx \<Rightarrow> bool \<Rightarrow> string set \<Rightarrow> 'ctx Filter \<Rightarrow> bool" where
  "is_relevant truthy ctx default_answer failed_by_default fltr =
     (case validations fltr of
        None \<Rightarrow> default_answer \<and> triggered_on fltr ctx
      | Some overrides \<Rightarrow>
          if \<not> truthy overrides
          then default_answer \<and> triggered_on fltr ctx
          else
            (case evaluate overrides ctx of
               (passed, failed) \<Rightarrow>
                 if failed = {} \<and> failed_by_default \<subset> passed
                 then triggered_on fltr ctx
                 else False))"

fun sift :: "('ctx ValidationSettings \<Rightarrow> bool) \<Rightarrow> 'ctx \<Rightarrow> bool \<Rightarrow> string set
    \<Rightarrow> 'ctx Filter list \<Rightarrow> 'ctx Filter list \<Rightarrow> 'ctx Filter list" where
  "sift truthy ctx default_answer failed_by_default [] relevant_filters = relevant_filters"
| "sift truthy ctx default_answer failed_by_default (fltr # rest) relevant_filters =
     (if is_relevant truthy ctx default_answer failed_by_default fltr
      then sift truthy ctx default_answer failed_by_default rest (relevant_filters @ [fltr])
      else sift truthy ctx default_answer failed_by_default rest relevant_filters)"

definition filter_list_result :: "('ctx ValidationSettings \<Rightarrow> bool) \<Rightarrow> 'ctx
    \<Rightarrow> 'ctx Filter list \<Rightarrow> 'ctx ValidationSettings \<Rightarrow> 'ctx Filter list" where
  "filter_list_result truthy ctx filters default_validations =
     (case evaluate default_validations ctx of
        (passed_by_default, failed_by_default) \<Rightarrow>
          let default_answer = (failed_by_default = {})
          in sift truthy ctx default_answer failed_by_default filters [])"

text \<open>
  The same function with the objects it can reach made explicit: the list passed as
  \<^verbatim>\<open>filters\<close>, the object passed as \<^verbatim>\<open>defaults\<close>, and the local list
  \<^verbatim>\<open>relevant_filters\<close>. Each statement of the source is a transformer of this
  state; the only statement that writes is \<^verbatim>\<open>relevant_filters.append(filter_)\<close>.
  The validation and trigger predicates, and the truth value of a settings object, are
  functions of their arguments.
\<close>

record 'ctx resolver_state =
  arg_filters :: "'ctx Filter list"
  arg_defaults :: "'ctx ValidationSettings"
  relevant_filters :: "'ctx Filter list"

definition append_relevant :: "'ctx Filter \<Rightarrow> 'ctx resolver_state \<Rightarrow> 'ctx resolver_state" where
  "append_relevant fltr st = st\<lparr>relevant_filters := relevant_filters st @ [fltr]\<rparr>"

fun resolver_loop :: "('ctx ValidationSettings \<Rightarrow> bool) \<Rightarrow> 'ctx \<Rightarrow> bool \<Rightarrow> string set
    \<Rightarrow> 'ctx Filter list \<Rightarrow> 'ctx resolver_state \<Rightarrow> 'ctx resolver_state" where
  "resolver_loop truthy ctx default_answer failed_by_default [] st = st"
| "resolver_loop truthy ctx default_answer failed_by_default (fltr # rest) st =
     (if is_relevant truthy ctx default_answer failed_by_default fltr
      then resolver_loop truthy ctx default_answer failed_by_default rest
             (append_relevant fltr st)
      else resolver_loop truthy ctx default_answer failed_by_default rest st)"

definition filter_list_result_run :: "('ctx ValidationSettings \<Rightarrow> bool) \<Rightarrow> 'ctx
    \<Rightarrow> 'ctx resolver_state \<Rightarrow> 'ctx resolver_state" where
  "filter_list_result_run truthy ctx st =
     (case evaluate (arg_defaults st) ctx of
        (passed_by_default, failed_by_default) \<Rightarrow>
          let default_answer = (failed_by_default = {})
          in resolver_loop truthy ctx default_answer failed_by_default (arg_filters st)
               (st\<lparr>relevant_filters := []\<rparr>))"

subsection \<open>The scenario of the spec\<close>

text \<open>
  The default rule \<^verbatim>\<open>public_channel\<close> fails; every filter triggers. F1 has no
  overrides, F2 overrides \<^verbatim>\<open>public_channel\<close> with a rule that passes, F3 overrides
  \<^verbatim>\<open>other_rule\<close> with a rule that passes, F4 overrides both.
\<close>

text \<open>
  Two ways a class can decide the truth value of its instances: a class that defines
  neither \<^verbatim>\<open>__bool__\<close> nor \<^verbatim>\<open>__len__\<close> makes every instance true; a class
  whose \<^verbatim>\<open>__len__\<close> counts the rules makes the instance without rules false.
\<close>

definition plain_truth :: "'ctx ValidationSettings \<Rightarrow> bool" where
  "plain_truth settings = True"

definition sized_truth :: "'ctx ValidationSettings \<Rightarrow> bool" where
  "sized_truth settings = (settings \<noteq> [])"

definition scenario_defaults :: "unit ValidationSettings" where
  "scenario_defaults = [(''public_channel'', \<lambda>ctx. False)]"

definition passing_defaults :: "unit ValidationSettings" where
  "passing_defaults = [(''public_channel'', \<lambda>ctx. True)]"

definition F1 :: "unit Filter" where
  "F1 = \<lparr>filter_id = 1, triggered_on = (\<lambda>ctx. True), validations = None\<rparr>"

definition F2 :: "unit Filter" where
  "F2 = \<lparr>filter_id = 2, triggered_on = (\<lambda>ctx. True),
          validations = Some [(''public_channel'', \<lambda>ctx. True)]\<rparr>"

definition F3 :: "unit Filter" where
  "F3 = \<lparr>filter_id = 3, triggered_on = (\<lambda>ctx. True),
          validations = Some [(''other_rule'', \<lambda>ctx. True)]\<rparr>"

definition F4 :: "unit Filter" where
  "F4 = \<lparr>filter_id = 4, triggered_on = (\<lambda>ctx. True),
          validations = Some [(''public_channel'', \<lambda>ctx. True), (''other_rule'', \<lambda>ctx. True)]\<rparr>"

subsection \<open>List-type resolution\<close>

text \<open>
  A value that a payload can hold under the key \<^verbatim>\<open>list_type\<close>: an integer, a
  boolean, a number of another type such as a float (by the real number it denotes), a
  string, or any other value, which equals neither 0 nor 1 (\<^verbatim>\<open>None\<close>, a list, a
  dictionary, a float that is not finite).
\<close>

datatype token = IntToken int | BoolToken bool | FloatToken real | StrToken string | OtherToken

text \<open>
  The exceptions the modelled code raises or lets through. \<open>BadArgument\<close> carries the
  argument that the message \<^verbatim>\<open>No matching list type found for {argument!r}.\<close> quotes,
  \<open>KeyError\<close> the missing key, \<open>ValueError\<close> and \<open>TypeError\<close> a message.
  \<open>ListTypeValueError\<close> is the \<^verbatim>\<open>ValueError\<close> that the lookup
  \<^verbatim>\<open>ListType(value)\<close> raises; it carries the value that its message
  \<^verbatim>\<open>{value!r} is not a valid ListType\<close> quotes. \<open>OtherError\<close> is any exception
  of another class.
\<close>

datatype error =
    BadArgument string
  | KeyError string
  | ValueError string
  | ListTypeValueError token
  | TypeError string
  | OtherError string

text \<open>
  \<^verbatim>\<open>ListTypeConverter.aliases\<close>: the pairs are tried in this order. The helper
  \<^verbatim>\<open>past_tense\<close> comes from \<^verbatim>\<open>bot.exts.filtering._utils\<close>, which is not among
  the sources; it is a parameter of the model. The \<^verbatim>\<open>ctx\<close> argument of
  \<^verbatim>\<open>convert\<close> is not read.
\<close>

definition aliases :: "(ListType \<times> string set) list" where
  "aliases =
     [(DENY, {''deny'', ''blocklist'', ''blacklist'', ''denylist'', ''bl'', ''dl''}),
      (ALLOW, {''allow'', ''allowlist'', ''whitelist'', ''al'', ''wl''})]"

fun convert_loop :: "(string \<Rightarrow> string) \<Rightarrow> (ListType \<times> string set) list \<Rightarrow> string
    \<Rightarrow> error + ListType" where
  "convert_loop past_tense [] argument = Inl (BadArgument argument)"
| "convert_loop past_tense ((list_type, names) # rest) argument =
     (if argument \<in> names \<or> argument \<in> past_tense ` names
      then Inr list_type
      else convert_loop past_tense rest argument)"

definition convert :: "(string \<Rightarrow> string) \<Rightarrow> string \<Rightarrow> error + ListType" where
  "convert past_tense argument = convert_loop past_tense aliases argument"

text \<open>The vocabulary of a list type: its aliases and their past-tense forms.\<close>

definition vocabulary :: "(string \<Rightarrow> string) \<Rightarrow> ListType \<Rightarrow> string set" where
  "vocabulary past_tense list_type =
     (case map_of aliases list_type of
        None \<Rightarrow> {}
      | Some names \<Rightarrow> names \<union> past_tense ` names)"

subsection \<open>Construction\<close>

text \<open>
  \<^verbatim>\<open>ListType(value)\<close> looks a member up by its value, with the equality and the
  hash of Python: a value equal to 0 (\<^verbatim>\<open>0\<close>, \<^verbatim>\<open>False\<close>, \<^verbatim>\<open>0.0\<close>) is
  \<open>DENY\<close>, a value equal to 1 (\<^verbatim>\<open>1\<close>, \<^verbatim>\<open>True\<close>, \<^verbatim>\<open>1.0\<close>) is
  \<open>ALLOW\<close>, and a value equal to neither raises \<^verbatim>\<open>ValueError\<close>. A string equals
  no number.
\<close>

fun ListType_of_value :: "token \<Rightarrow> error + ListType" where
  "ListType_of_value (IntToken n) =
     (if n = 0 then Inr DENY
      else if n = 1 then Inr ALLOW
      else Inl (ListTypeValueError (IntToken n)))"
| "ListType_of_value (BoolToken b) = (if b then Inr ALLOW else Inr DENY)"
| "ListType_of_value (FloatToken x) =
     (if x = 0 then Inr DENY
      else if x = 1 then Inr ALLOW
      else Inl (ListTypeValueError (FloatToken x)))"
| "ListType_of_value (StrToken s) = Inl (ListTypeValueError (StrToken s))"
| "ListType_of_value OtherToken = Inl (ListTypeValueError OtherToken)"

text \<open>
  The payload \<^verbatim>\<open>list_data\<close> is a dictionary read at the three keys
  \<^verbatim>\<open>settings\<close>, \<^verbatim>\<open>list_type\<close> and \<^verbatim>\<open>filters\<close>; a field is
  \<open>None\<close> when the key is absent, and reading it then raises \<^verbatim>\<open>KeyError\<close>.
  The settings payload and the filter payloads are opaque.
\<close>

record ('sd, 'fd) list_data =
  ld_settings :: "'sd option"
  ld_list_type :: "token option"
  ld_filters :: "'fd list option"

text \<open>
  The value \<^verbatim>\<open>{"actions": actions, "validations": validations}\<close> stored in
  \<^verbatim>\<open>self.defaults\<close>.
\<close>

record ('act, 'val) defaults_entry =
  entry_actions :: 'act
  entry_validations :: 'val

text \<open>
  A \<^verbatim>\<open>FilterList\<close> object. The two dictionaries are association lists updated as a
  Python dictionary is: assigning to a key that is present replaces its value in place,
  assigning to a new key appends an entry. \<^verbatim>\<open>filter_type\<close> is the constructor that
  \<^verbatim>\<open>__init__\<close> receives; it returns the filter or the exception it raised.
\<close>

record ('fd, 'act, 'val, 'f) FilterList =
  filter_lists :: "(ListType \<times> 'f list) list"
  defaults :: "(ListType \<times> ('act, 'val) defaults_entry) list"
  filter_type :: "'fd \<Rightarrow> 'act \<Rightarrow> error + 'f"

definition FilterList_init :: "('fd \<Rightarrow> 'act \<Rightarrow> error + 'f) \<Rightarrow> ('fd, 'act, 'val, 'f) FilterList" where
  "FilterList_init ft = \<lparr>filter_lists = [], defaults = [], filter_type = ft\<rparr>"

text \<open>
  The loop of \<^verbatim>\<open>add_list\<close> over the filter payloads: a \<^verbatim>\<open>TypeError\<close> of the
  constructor is logged and the payload skipped; any other exception leaves the loop.
\<close>

fun build_filters :: "('fd \<Rightarrow> 'act \<Rightarrow> error + 'f) \<Rightarrow> 'act \<Rightarrow> 'fd list \<Rightarrow> 'f list
    \<Rightarrow> error + 'f list" where
  "build_filters ft acts [] built = Inr built"
| "build_filters ft acts (filter_data # rest) built =
     (case ft filter_data acts of
        Inr fltr \<Rightarrow> build_filters ft acts rest (built @ [fltr])
      | Inl (TypeError e) \<Rightarrow> build_filters ft acts rest built
      | Inl e \<Rightarrow> Inl e)"

text \<open>
  \<^verbatim>\<open>add_list\<close> returns the exception it raised, if any, and the object as the call
  leaves it. \<^verbatim>\<open>create_settings\<close> comes from \<^verbatim>\<open>bot.exts.filtering._settings\<close>,
  which is not among the sources; it is a parameter of the model and returns the pair
  (actions, validations) or the exception it raised.
\<close>

definition add_list :: "('sd \<Rightarrow> error + 'act \<times> 'val) \<Rightarrow> ('fd, 'act, 'val, 'f) FilterList
    \<Rightarrow> ('sd, 'fd) list_data \<Rightarrow> error option \<times> ('fd, 'act, 'val, 'f) FilterList" where
  "add_list create_settings self list_data =
     (case ld_settings list_data of
        None \<Rightarrow> (Some (KeyError ''settings''), self)
      | Some settings_data \<Rightarrow>
     (case create_settings settings_data of
        Inl e \<Rightarrow> (Some e, self)
      | Inr (acts, vals) \<Rightarrow>
     (case ld_list_type list_data of
        None \<Rightarrow> (Some (KeyError ''list_type''), self)
      | Some tok \<Rightarrow>
     (case ListType_of_value tok of
        Inl e \<Rightarrow> (Some e, self)
      | Inr lt \<Rightarrow>
          let self1 = self\<lparr>defaults :=
                AList.update lt \<lparr>entry_actions = acts, entry_validations = vals\<rparr> (defaults self)\<rparr>
          in
     (case ld_filters list_data of
        None \<Rightarrow> (Some (KeyError ''filters''), self1)
      | Some payloads \<Rightarrow>
     (case build_filters (filter_type self1) acts payloads [] of
        Inl e \<Rightarrow> (Some e, self1)
      | Inr built \<Rightarrow>
          (None, self1\<lparr>filter_lists := AList.update lt built (filter_lists self1)\<rparr>)))))))"


text \<open>
  What the loop of \<^verbatim>\<open>add_list\<close> tolerates from the constructor (a filter, or a
  \<^verbatim>\<open>TypeError\<close>), and the filters that the payloads of a list construct, in the
  order of the payloads.
\<close>

definition tolerated :: "error + 'f \<Rightarrow> bool" where
  "tolerated r = (case r of Inr fltr \<Rightarrow> True | Inl (TypeError e) \<Rightarrow> True | Inl e \<Rightarrow> False)"

definition constructed :: "('fd \<Rightarrow> 'act \<Rightarrow> error + 'f) \<Rightarrow> 'act \<Rightarrow> 'fd list \<Rightarrow> 'f list" where
  "constructed ft acts payloads =
     List.map_filter (\<lambda>filter_data. case ft filter_data acts of Inr fltr \<Rightarrow> Some fltr | Inl e \<Rightarrow> None)
       payloads"

subsection \<open>Sample collaborators\<close>

text \<open>
  Concrete stand-ins for the collaborators that are parameters of the model, used where
  a statement is evaluated at a concrete input. The sample past tense appends
  \<^verbatim>\<open>ed\<close>. The sample settings parser accepts a payload that is \<open>Some\<close> pair of
  actions and validations and raises \<^verbatim>\<open>ValueError\<close> on \<open>None\<close>. The sample filter
  constructor takes a number as payload: it builds the filter with that identity from a
  positive even number, raises \<^verbatim>\<open>TypeError\<close> on a positive odd number and
  \<^verbatim>\<open>KeyError\<close> on zero.
\<close>

definition sample_past_tense :: "string \<Rightarrow> string" where
  "sample_past_tense word = word @ ''ed''"

definition sample_create_settings :: "(string \<times> string) option \<Rightarrow> error + string \<times> string" where
  "sample_create_settings settings_data =
     (case settings_data of
        None \<Rightarrow> Inl (ValueError ''malformed settings'')
      | Some parsed \<Rightarrow> Inr parsed)"

definition sample_filter_type :: "nat \<Rightarrow> string \<Rightarrow> error + nat" where
  "sample_filter_type filter_data acts =
     (if filter_data = 0 then Inl (KeyError ''id'')
      else if odd filter_data then Inl (TypeError ''unexpected keyword argument'')
      else Inr filter_data)"

definition sample_object :: "(nat, string, string, nat) FilterList" where
  "sample_object = FilterList_init sample_filter_type"

definition sample_payload :: "(string \<times> string) option \<Rightarrow> token \<Rightarrow> nat list
    \<Rightarrow> ((string \<times> string) option, nat) list_data" where
  "sample_payload settings_data tok payloads =
     \<lparr>ld_settings = Some settings_data, ld_list_type = Some tok, ld_filters = Some payloads\<rparr>"

subsection \<open>Basic facts about the resolver\<close>

lemma sift_filter:
  "sift truthy ctx da fbd fs acc = acc @ filter (is_relevant truthy ctx da fbd) fs"
  by (induction fs arbitrary: acc) simp_all

lemma filter_list_result_filter:
  "filter_list_result truthy ctx fs dv =
     filter (is_relevant truthy ctx (snd (evaluate dv ctx) = {}) (snd (evaluate dv ctx))) fs"
  by (simp add: filter_list_result_def sift_filter split: prod.split)

lemma resolver_loop_frame:
  "arg_filters (resolver_loop truthy ctx da fbd fs st) = arg_filters st
   \<and> arg_defaults (resolver_loop truthy ctx da fbd fs st) = arg_defaults st
   \<and> relevant_filters (resolver_loop truthy ctx da fbd fs st)
       = relevant_filters st @ filter (is_relevant truthy ctx da fbd) fs"
  by (induction fs arbitrary: st) (simp_all add: append_relevant_def)

lemma scenario_filters_distinct: "distinct [F1, F2, F3, F4]"
  by (simp add: F1_def F2_def F3_def F4_def)

lemma is_relevant_cases:
  "is_relevant truthy ctx da fbd fltr =
     (case validations fltr of
        None \<Rightarrow> da \<and> triggered_on fltr ctx
      | Some overrides \<Rightarrow>
          if truthy overrides
          then snd (evaluate overrides ctx) = {} \<and> fbd \<subset> fst (evaluate overrides ctx)
               \<and> triggered_on fltr ctx
          else da \<and> triggered_on fltr ctx)"
  by (auto simp: is_relevant_def split: option.split prod.split)

lemma scenario_result:
  "filter_list_result plain_truth () [F1, F2, F3, F4] scenario_defaults = [F4]"
  by (simp add: filter_list_result_def is_relevant_cases plain_truth_def evaluate_def psubset_eq
      F1_def F2_def F3_def F4_def scenario_defaults_def)



text \<open>
  Where every settings object is true, an override set without rules takes the second
  branch, and no set is a proper subset of its empty set of passed names: with defaults
  that pass, F1 is included and F1 with an empty override set is not.
\<close>

lemma true_empty_override_set_is_excluded:
  "filter_list_result plain_truth () [F1] passing_defaults = [F1]
   \<and> filter_list_result plain_truth () [F1\<lparr>validations := Some []\<rparr>] passing_defaults = []"
  by (simp add: filter_list_result_def is_relevant_cases plain_truth_def evaluate_def
      F1_def passing_defaults_def)

subsection \<open>Basic facts about the converter\<close>

lemma convert_cases:
  "convert pt argument =
     (if argument \<in> vocabulary pt DENY then Inr DENY
      else if argument \<in> vocabulary pt ALLOW then Inr ALLOW
      else Inl (BadArgument argument))"
  by (simp add: convert_def aliases_def vocabulary_def)

lemma vocabulary_DENY:
  "vocabulary pt DENY =
     {''deny'', ''blocklist'', ''blacklist'', ''denylist'', ''bl'', ''dl''}
     \<union> pt ` {''deny'', ''blocklist'', ''blacklist'', ''denylist'', ''bl'', ''dl''}"
  by (simp add: vocabulary_def aliases_def)

lemma vocabulary_ALLOW:
  "vocabulary pt ALLOW =
     {''allow'', ''allowlist'', ''whitelist'', ''al'', ''wl''}
     \<union> pt ` {''allow'', ''allowlist'', ''whitelist'', ''al'', ''wl''}"
  by (simp add: vocabulary_def aliases_def)

lemma sample_vocabulary_DENY:
  "vocabulary sample_past_tense DENY =
     {''deny'', ''blocklist'', ''blacklist'', ''denylist'', ''bl'', ''dl'',
      ''denyed'', ''blocklisted'', ''blacklisted'', ''denylisted'', ''bled'', ''dled''}"
  by (simp add: vocabulary_def aliases_def sample_past_tense_def insert_commute)

lemma sample_vocabulary_ALLOW:
  "vocabulary sample_past_tense ALLOW =
     {''allow'', ''allowlist'', ''whitelist'', ''al'', ''wl'',
      ''allowed'', ''allowlisted'', ''whitelisted'', ''aled'', ''wled''}"
  by (simp add: vocabulary_def aliases_def sample_past_tense_def insert_commute)

lemma sample_vocabularies_disjoint:
  "vocabulary sample_past_tense DENY \<inter> vocabulary sample_past_tense ALLOW = {}"
  by (simp add: sample_vocabulary_DENY sample_vocabulary_ALLOW)

subsection \<open>Basic facts about construction\<close>

lemma constructed_simps:
  "constructed ft acts [] = []"
  "constructed ft acts (fd # rest) =
     (case ft fd acts of Inr f \<Rightarrow> f # constructed ft acts rest | Inl e \<Rightarrow> constructed ft acts rest)"
  by (simp_all add: constructed_def split: sum.split)

lemma build_filters_tolerated:
  "\<forall>fd \<in> set payloads. tolerated (ft fd acts)
   \<Longrightarrow> build_filters ft acts payloads built = Inr (built @ constructed ft acts payloads)"
proof (induction payloads arbitrary: built)
  case Nil
  show ?case by (simp add: constructed_simps)
next
  case (Cons fd rest)
  then show ?case
    by (auto simp: constructed_simps tolerated_def split: sum.splits error.splits)
qed

lemma build_filters_raises:
  "\<forall>fd \<in> set pre. tolerated (ft fd acts) \<Longrightarrow> ft bad acts = Inl e \<Longrightarrow> \<not> tolerated (ft bad acts)
   \<Longrightarrow> build_filters ft acts (pre @ bad # post) built = Inl e"
proof (induction pre arbitrary: built)
  case Nil
  then show ?case by (auto simp: tolerated_def split: error.splits)
next
  case (Cons fd pre)
  then show ?case
    by (auto simp: tolerated_def split: sum.splits error.splits)
qed

lemma length_constructed:
  "length (constructed ft acts payloads) + length (filter (\<lambda>fd. isl (ft fd acts)) payloads)
     = length payloads"
  by (induction payloads) (auto simp: constructed_simps split: sum.splits)

lemma add_list_settings_failure:
  "ld_settings ld = Some sd \<Longrightarrow> cs sd = Inl e \<Longrightarrow> add_list cs self ld = (Some e, self)"
  by (simp add: add_list_def)

lemma add_list_built:
  "ld_settings ld = Some sd \<Longrightarrow> cs sd = Inr (acts, vals) \<Longrightarrow> ld_list_type ld = Some tok
   \<Longrightarrow> ListType_of_value tok = Inr lt \<Longrightarrow> ld_filters ld = Some payloads
   \<Longrightarrow> build_filters (filter_type self) acts payloads [] = Inr built
   \<Longrightarrow> add_list cs self ld =
        (None, self\<lparr>defaults := AList.update lt \<lparr>entry_actions = acts, entry_validations = vals\<rparr> (defaults self),
                    filter_lists := AList.update lt built (filter_lists self)\<rparr>)"
  by (simp add: add_list_def Let_def)

lemma add_list_filter_failure:
  "ld_settings ld = Some sd \<Longrightarrow> cs sd = Inr (acts, vals) \<Longrightarrow> ld_list_type ld = Some tok
   \<Longrightarrow> ListType_of_value tok = Inr lt \<Longrightarrow> ld_filters ld = Some payloads
   \<Longrightarrow> build_filters (filter_type self) acts payloads [] = Inl e
   \<Longrightarrow> add_list cs self ld =
        (Some e, self\<lparr>defaults := AList.update lt \<lparr>entry_actions = acts, entry_validations = vals\<rparr> (defaults self)\<rparr>)"
  by (simp add: add_list_def Let_def)

lemma sample_build_2_0_4:
  "build_filters sample_filter_type acts [2, 0, 4] [] = Inl (KeyError ''id'')"
  by (simp add: sample_filter_type_def)











lemma sample_object_fields:
  "filter_lists sample_object = []" "defaults sample_object = []"
  "filter_type sample_object = sample_filter_type"
  by (simp_all add: sample_object_def FilterList_init_def)

lemma sample_add_list_ok:
  "build_filters sample_filter_type a payloads [] = Inr built \<Longrightarrow>
   ListType_of_value tok = Inr lt \<Longrightarrow> filter_type self = sample_filter_type \<Longrightarrow>
   add_list sample_create_settings self (sample_payload (Some (a, v)) tok payloads)
     = (None, self\<lparr>defaults := AList.update lt \<lparr>entry_actions = a, entry_validations = v\<rparr> (defaults self),
                  filter_lists := AList.update lt built (filter_lists self)\<rparr>)"
  by (rule add_list_built [where sd = "Some (a, v)" and tok = tok and payloads = payloads])
     (simp_all add: sample_payload_def sample_create_settings_def)

lemma sample_add_list_raises:
  "build_filters sample_filter_type a payloads [] = Inl e \<Longrightarrow>
   ListType_of_value tok = Inr lt \<Longrightarrow> filter_type self = sample_filter_type \<Longrightarrow>
   add_list sample_create_settings self (sample_payload (Some (a, v)) tok payloads)
     = (Some e, self\<lparr>defaults := AList.update lt \<lparr>entry_actions = a, entry_validations = v\<rparr> (defaults self)\<rparr>)"
  by (rule add_list_filter_failure [where sd = "Some (a, v)" and tok = tok and payloads = payloads])
     (simp_all add: sample_payload_def sample_create_settings_def)



section \<open>The claims\<close>

subsection \<open>The relevance resolver\<close>

text \<open>
  C1. The claim: a filter that has overrides is included iff (a) none of its own
  override rules failed, (b) every rule name that failed by default is among the names
  its overrides passed, and (c) it triggers; so a filter whose overrides pass exactly the
  names that failed by default is included iff it triggers. The source compares the two
  sets with \<^verbatim>\<open><\<close>, the proper subset: in the scenario of the spec, F2 meets (a), (b)
  and (c), and the resolver leaves it out, whichever way the class decides the truth
  value of its instances (the override set of F2 has a rule).
\<close>

theorem exact_reclamation_is_excluded:
  "snd (evaluate [(''public_channel'', \<lambda>ctx. True)] ()) = {}
   \<and> snd (evaluate scenario_defaults ()) \<subseteq> fst (evaluate [(''public_channel'', \<lambda>ctx. True)] ())
   \<and> validations F2 = Some [(''public_channel'', \<lambda>ctx. True)]
   \<and> triggered_on F2 ()
   \<and> filter_list_result plain_truth () [F2] scenario_defaults = []
   \<and> filter_list_result sized_truth () [F2] scenario_defaults = []"
  by (simp add: filter_list_result_def is_relevant_cases plain_truth_def sized_truth_def
      evaluate_def F2_def scenario_defaults_def)



text \<open>
  C3. A filter of the collection that has no overrides is included iff no default
  validation failed and its trigger predicate holds on the context; and when a default
  validation failed, every filter of the result has overrides that passed every rule name
  that failed by default.
\<close>

theorem no_override_filter_included_iff:
  assumes "fltr \<in> set fs" and "validations fltr = None"
  shows "(fltr \<in> set (filter_list_result truthy ctx fs dv)
            \<longleftrightarrow> snd (evaluate dv ctx) = {} \<and> triggered_on fltr ctx)
         \<and> (snd (evaluate dv ctx) \<noteq> {} \<longrightarrow>
              (\<forall>g \<in> set (filter_list_result truthy ctx fs dv).
                 \<exists>overrides. validations g = Some overrides
                   \<and> snd (evaluate dv ctx) \<subseteq> fst (evaluate overrides ctx)))"
  using assms
  by (auto simp: filter_list_result_filter is_relevant_cases split: option.splits if_splits)

theorem no_override_filter_included_iff_witness:
  "F1 \<in> set [F1, F2, F3, F4] \<and> validations F1 = None
   \<and> snd (evaluate scenario_defaults ()) \<noteq> {}
   \<and> triggered_on F1 ()
   \<and> F1 \<notin> set (filter_list_result plain_truth () [F1, F2, F3, F4] scenario_defaults)
   \<and> F4 \<in> set (filter_list_result plain_truth () [F1, F2, F3, F4] scenario_defaults)
   \<and> (\<exists>overrides. validations F4 = Some overrides
         \<and> snd (evaluate scenario_defaults ()) \<subseteq> fst (evaluate overrides ()))"
proof -
  have m: "F1 \<in> set [F1, F2, F3, F4]" by simp
  have n: "validations F1 = None" by (simp add: F1_def)
  have t: "triggered_on F1 ()" by (simp add: F1_def)
  have f: "snd (evaluate scenario_defaults ()) \<noteq> {}"
    by (simp add: evaluate_def scenario_defaults_def)
  have g: "F4 \<in> set (filter_list_result plain_truth () [F1, F2, F3, F4] scenario_defaults)"
    by (simp add: scenario_result)
  from no_override_filter_included_iff [OF m n, of plain_truth "()" scenario_defaults] m n t f g
  show ?thesis by blast
qed

text \<open>
  C4. For a collection of distinct filters, every filter of the result is in the
  collection, no filter occurs twice in the result, and a permutation of the collection
  yields a result with the same set of filters.
\<close>

theorem filter_list_result_set_semantics:
  assumes "distinct fs" and "mset fs' = mset fs"
  shows "set (filter_list_result truthy ctx fs dv) \<subseteq> set fs
         \<and> distinct (filter_list_result truthy ctx fs dv)
         \<and> set (filter_list_result truthy ctx fs' dv)
             = set (filter_list_result truthy ctx fs dv)"
proof -
  from assms(2) have "set fs' = set fs" by (rule mset_eq_setD)
  with assms(1) show ?thesis by (simp add: filter_list_result_filter)
qed

theorem filter_list_result_set_semantics_witness:
  "distinct [F1, F2, F3, F4] \<and> mset [F4, F2, F1, F3] = mset [F1, F2, F3, F4]
   \<and> set (filter_list_result plain_truth () [F1, F2, F3, F4] scenario_defaults)
       \<subseteq> set [F1, F2, F3, F4]
   \<and> distinct (filter_list_result plain_truth () [F1, F2, F3, F4] scenario_defaults)
   \<and> set (filter_list_result plain_truth () [F4, F2, F1, F3] scenario_defaults)
       = set (filter_list_result plain_truth () [F1, F2, F3, F4] scenario_defaults)"
proof -
  have d: "distinct [F1, F2, F3, F4]" by (rule scenario_filters_distinct)
  have p: "mset [F4, F2, F1, F3] = mset [F1, F2, F3, F4]" by (simp add: ac_simps)
  from filter_list_result_set_semantics [OF d p, of plain_truth "()" scenario_defaults] d p
  show ?thesis by blast
qed

text \<open>
  C9. With the validation and trigger predicates functions of the context, a run of the
  resolver leaves the filter collection (hence each filter) and the defaults as they
  were, returns the list that \<open>filter_list_result\<close> computes from them, and a second run
  on the state the first one left returns the same list.
\<close>

theorem filter_list_result_reads_only:
  "arg_filters (filter_list_result_run truthy ctx st) = arg_filters st
   \<and> arg_defaults (filter_list_result_run truthy ctx st) = arg_defaults st
   \<and> relevant_filters (filter_list_result_run truthy ctx st)
       = filter_list_result truthy ctx (arg_filters st) (arg_defaults st)
   \<and> relevant_filters
         (filter_list_result_run truthy ctx (filter_list_result_run truthy ctx st))
       = relevant_filters (filter_list_result_run truthy ctx st)"
proof -
  have a: "arg_filters (filter_list_result_run truthy ctx s) = arg_filters s"
    for s :: "'a resolver_state"
    by (simp add: filter_list_result_run_def resolver_loop_frame split: prod.split)
  have b: "arg_defaults (filter_list_result_run truthy ctx s) = arg_defaults s"
    for s :: "'a resolver_state"
    by (simp add: filter_list_result_run_def resolver_loop_frame split: prod.split)
  have c: "relevant_filters (filter_list_result_run truthy ctx s)
        = filter_list_result truthy ctx (arg_filters s) (arg_defaults s)"
    for s :: "'a resolver_state"
    by (simp add: filter_list_result_run_def resolver_loop_frame filter_list_result_filter
        split: prod.split)
  show ?thesis by (simp add: a b c)
qed

subsection \<open>List-type resolution\<close>

text \<open>
  C6. Where no past-tense form makes the vocabularies of the two list types overlap,
  every DENY alias and every past-tense form of one resolves to \<open>DENY\<close>, every ALLOW
  alias and every past-tense form of one resolves to \<open>ALLOW\<close>, and every other token
  raises \<^verbatim>\<open>BadArgument\<close> carrying the token: no member is returned by default.
\<close>

theorem convert_alias_totality:
  assumes "vocabulary pt DENY \<inter> vocabulary pt ALLOW = {}"
  shows "(argument \<in> vocabulary pt DENY \<longrightarrow> convert pt argument = Inr DENY)
       \<and> (argument \<in> vocabulary pt ALLOW \<longrightarrow> convert pt argument = Inr ALLOW)
       \<and> (argument \<notin> vocabulary pt DENY \<union> vocabulary pt ALLOW
            \<longrightarrow> convert pt argument = Inl (BadArgument argument))"
  using assms by (auto simp: convert_cases)

theorem convert_alias_totality_witness:
  "vocabulary sample_past_tense DENY \<inter> vocabulary sample_past_tense ALLOW = {}
   \<and> ''blacklisted'' \<in> vocabulary sample_past_tense DENY
   \<and> convert sample_past_tense ''blacklisted'' = Inr DENY
   \<and> ''wl'' \<in> vocabulary sample_past_tense ALLOW
   \<and> convert sample_past_tense ''wl'' = Inr ALLOW
   \<and> ''greylist'' \<notin> vocabulary sample_past_tense DENY \<union> vocabulary sample_past_tense ALLOW
   \<and> convert sample_past_tense ''greylist'' = Inl (BadArgument ''greylist'')"
proof -
  note d = sample_vocabularies_disjoint
  have a: "''blacklisted'' \<in> vocabulary sample_past_tense DENY"
    by (simp add: sample_vocabulary_DENY)
  have b: "''wl'' \<in> vocabulary sample_past_tense ALLOW"
    by (simp add: sample_vocabulary_ALLOW)
  have c: "''greylist'' \<notin> vocabulary sample_past_tense DENY \<union> vocabulary sample_past_tense ALLOW"
    by (simp add: sample_vocabulary_DENY sample_vocabulary_ALLOW)
  from convert_alias_totality [OF d, of "''blacklisted''"]
       convert_alias_totality [OF d, of "''wl''"]
       convert_alias_totality [OF d, of "''greylist''"] a b c d
  show ?thesis by blast
qed

subsection \<open>Construction\<close>

text \<open>
  C5, as amended. With a settings payload that parses, a \<^verbatim>\<open>list_type\<close> value of
  the enumeration and filter payloads on each of which the constructor returns a filter
  or raises \<^verbatim>\<open>TypeError\<close>, \<^verbatim>\<open>add_list\<close> raises nothing and stores under
  the list type exactly the filters constructed, in the order of the payloads: N payloads
  of which M fail leave N - M filters. When the settings payload does not parse,
  \<^verbatim>\<open>add_list\<close> raises the parser's exception and leaves the object as it was.
\<close>

theorem add_list_partial_failure:
  "(ld_settings ld = Some sd \<and> cs sd = Inr (acts, vals)
      \<and> ld_list_type ld = Some tok \<and> ListType_of_value tok = Inr lt
      \<and> ld_filters ld = Some payloads
      \<and> (\<forall>filter_data \<in> set payloads. tolerated (filter_type self filter_data acts))
    \<longrightarrow> fst (add_list cs self ld) = None
      \<and> map_of (filter_lists (snd (add_list cs self ld))) lt
          = Some (constructed (filter_type self) acts payloads)
      \<and> length (constructed (filter_type self) acts payloads)
          + length (filter (\<lambda>filter_data. isl (filter_type self filter_data acts)) payloads)
          = length payloads)
   \<and> (ld_settings ld = Some sd \<and> cs sd = Inl e \<longrightarrow> add_list cs self ld = (Some e, self))"
proof (intro conjI impI)
  assume h: "ld_settings ld = Some sd \<and> cs sd = Inr (acts, vals)
      \<and> ld_list_type ld = Some tok \<and> ListType_of_value tok = Inr lt
      \<and> ld_filters ld = Some payloads
      \<and> (\<forall>filter_data \<in> set payloads. tolerated (filter_type self filter_data acts))"
  then have b: "build_filters (filter_type self) acts payloads []
      = Inr (constructed (filter_type self) acts payloads)"
    by (simp add: build_filters_tolerated)
  from h have r: "add_list cs self ld =
        (None, self\<lparr>defaults := AList.update lt \<lparr>entry_actions = acts, entry_validations = vals\<rparr> (defaults self),
                    filter_lists := AList.update lt (constructed (filter_type self) acts payloads) (filter_lists self)\<rparr>)"
    using add_list_built [OF _ _ _ _ _ b, of ld sd cs vals tok lt] by blast
  show "fst (add_list cs self ld) = None" by (simp add: r)
  show "map_of (filter_lists (snd (add_list cs self ld))) lt
                = Some (constructed (filter_type self) acts payloads)"
    by (simp add: r update_conv')
  show "length (constructed (filter_type self) acts payloads)
          + length (filter (\<lambda>filter_data. isl (filter_type self filter_data acts)) payloads)
          = length payloads"
    by (rule length_constructed)
next
  assume "ld_settings ld = Some sd \<and> cs sd = Inl e"
  then show "add_list cs self ld = (Some e, self)" by (simp add: add_list_settings_failure)
qed

theorem add_list_partial_failure_witness:
  "fst (add_list sample_create_settings sample_object
          (sample_payload (Some (''delete'', ''public'')) (IntToken 0) [2, 3, 4])) = None
   \<and> map_of (filter_lists (snd (add_list sample_create_settings sample_object
          (sample_payload (Some (''delete'', ''public'')) (IntToken 0) [2, 3, 4])))) DENY = Some [2, 4]
   \<and> sample_filter_type 3 ''delete'' = Inl (TypeError ''unexpected keyword argument'')
   \<and> add_list sample_create_settings sample_object (sample_payload None (IntToken 0) [2, 3, 4])
       = (Some (ValueError ''malformed settings''), sample_object)"
proof -
  let ?ok = "sample_payload (Some (''delete'', ''public'')) (IntToken 0) [2, 3, 4]"
  let ?bad = "sample_payload None (IntToken 0) [2, 3, 4]"
  have t: "\<forall>filter_data \<in> set [2, 3, 4].
      tolerated (filter_type sample_object filter_data ''delete'')"
    by (simp add: sample_object_def FilterList_init_def sample_filter_type_def tolerated_def)
  have c: "constructed (filter_type sample_object) ''delete'' [2, 3, 4] = [2, 4]"
    by (simp add: constructed_simps sample_object_def FilterList_init_def sample_filter_type_def)
  have h1: "ld_settings ?ok = Some (Some (''delete'', ''public''))
      \<and> sample_create_settings (Some (''delete'', ''public'')) = Inr (''delete'', ''public'')
      \<and> ld_list_type ?ok = Some (IntToken 0) \<and> ListType_of_value (IntToken 0) = Inr DENY
      \<and> ld_filters ?ok = Some [2, 3, 4]"
    by (simp add: sample_payload_def sample_create_settings_def)
  have h2: "ld_settings ?bad = Some None
      \<and> sample_create_settings None = Inl (ValueError ''malformed settings'')"
    by (simp add: sample_payload_def sample_create_settings_def)
  have e: "sample_filter_type 3 ''delete'' = Inl (TypeError ''unexpected keyword argument'')"
    by (simp add: sample_filter_type_def)
  from add_list_partial_failure [where ld = ?ok and sd = "Some (''delete'', ''public'')"
      and cs = sample_create_settings and acts = "''delete''" and vals = "''public''"
      and tok = "IntToken 0" and lt = DENY and payloads = "[2, 3, 4]" and self = sample_object]
    h1 t c
  have p1: "fst (add_list sample_create_settings sample_object ?ok) = None
     \<and> map_of (filter_lists (snd (add_list sample_create_settings sample_object ?ok))) DENY
         = Some [2, 4]"
    by simp
  from add_list_partial_failure [where ld = ?bad and sd = None
      and cs = sample_create_settings and self = sample_object
      and e = "ValueError ''malformed settings''"] h2
  have p2: "add_list sample_create_settings sample_object ?bad
       = (Some (ValueError ''malformed settings''), sample_object)"
    by simp
  from p1 p2 e show ?thesis by simp
qed

text \<open>
  C5 as stated fails where a constructor raises an exception that is not a
  \<^verbatim>\<open>TypeError\<close>: of three payloads one fails with \<^verbatim>\<open>KeyError\<close>, the
  settings parse, and no partition is stored.
\<close>

theorem add_list_partial_failure_counterexample:
  "sample_create_settings (Some (''delete'', ''public'')) = Inr (''delete'', ''public'')
   \<and> isl (sample_filter_type 0 ''delete'')
   \<and> constructed sample_filter_type ''delete'' [2, 0, 4] = [2, 4]
   \<and> add_list sample_create_settings sample_object
        (sample_payload (Some (''delete'', ''public'')) (IntToken 0) [2, 0, 4])
       = (Some (KeyError ''id''),
          sample_object\<lparr>defaults :=
            [(DENY, \<lparr>entry_actions = ''delete'', entry_validations = ''public''\<rparr>)]\<rparr>)
   \<and> map_of (filter_lists (snd (add_list sample_create_settings sample_object
        (sample_payload (Some (''delete'', ''public'')) (IntToken 0) [2, 0, 4])))) DENY = None"
  by (simp add: add_list_def sample_payload_def sample_create_settings_def sample_object_def
      FilterList_init_def sample_build_2_0_4 constructed_simps sample_filter_type_def)






text \<open>
  C10, as amended. A failure of the settings parser leaves the object unchanged. When the
  constructor raises an exception that is not a \<^verbatim>\<open>TypeError\<close> (after payloads it
  constructed or that raised \<^verbatim>\<open>TypeError\<close>), \<^verbatim>\<open>add_list\<close> raises that
  exception with \<^verbatim>\<open>defaults\<close> already holding the new settings under the list type
  and \<^verbatim>\<open>filter_lists\<close> as it was before the call: without an entry for the list
  type if it had none.
\<close>

theorem add_list_not_atomic:
  "(ld_settings ld = Some sd \<and> cs sd = Inl e \<longrightarrow> add_list cs self ld = (Some e, self))
   \<and> (ld_settings ld = Some sd \<and> cs sd = Inr (acts, vals)
        \<and> ld_list_type ld = Some tok \<and> ListType_of_value tok = Inr lt
        \<and> ld_filters ld = Some (pre @ bad # post)
        \<and> (\<forall>filter_data \<in> set pre. tolerated (filter_type self filter_data acts))
        \<and> filter_type self bad acts = Inl e' \<and> (\<forall>m. e' \<noteq> TypeError m)
      \<longrightarrow> fst (add_list cs self ld) = Some e'
        \<and> map_of (defaults (snd (add_list cs self ld))) lt
            = Some \<lparr>entry_actions = acts, entry_validations = vals\<rparr>
        \<and> filter_lists (snd (add_list cs self ld)) = filter_lists self
        \<and> (lt \<notin> fst ` set (filter_lists self)
             \<longrightarrow> map_of (filter_lists (snd (add_list cs self ld))) lt = None))"
proof (intro conjI impI)
  assume "ld_settings ld = Some sd \<and> cs sd = Inl e"
  then show "add_list cs self ld = (Some e, self)" by (simp add: add_list_settings_failure)
next
  assume h: "ld_settings ld = Some sd \<and> cs sd = Inr (acts, vals)
        \<and> ld_list_type ld = Some tok \<and> ListType_of_value tok = Inr lt
        \<and> ld_filters ld = Some (pre @ bad # post)
        \<and> (\<forall>filter_data \<in> set pre. tolerated (filter_type self filter_data acts))
        \<and> filter_type self bad acts = Inl e' \<and> (\<forall>m. e' \<noteq> TypeError m)"
  then have nt: "\<not> tolerated (filter_type self bad acts)"
    by (cases e') (simp_all add: tolerated_def)
  from h nt have b: "build_filters (filter_type self) acts (pre @ bad # post) [] = Inl e'"
    by (simp add: build_filters_raises)
  from h have r: "add_list cs self ld =
        (Some e', self\<lparr>defaults := AList.update lt
            \<lparr>entry_actions = acts, entry_validations = vals\<rparr> (defaults self)\<rparr>)"
    using add_list_filter_failure [where cs = cs and sd = sd and tok = tok and lt = lt
        and ld = ld and self = self and acts = acts and vals = vals, OF _ _ _ _ _ b]
    by blast
  show "fst (add_list cs self ld) = Some e'" by (simp add: r)
  show "map_of (defaults (snd (add_list cs self ld))) lt
            = Some \<lparr>entry_actions = acts, entry_validations = vals\<rparr>"
    by (simp add: r update_conv')
  show "filter_lists (snd (add_list cs self ld)) = filter_lists self" by (simp add: r)
  assume "lt \<notin> fst ` set (filter_lists self)"
  then show "map_of (filter_lists (snd (add_list cs self ld))) lt = None"
    by (simp add: r map_of_eq_None_iff)
qed

theorem add_list_not_atomic_witness:
  "add_list sample_create_settings sample_object (sample_payload None (IntToken 0) [2, 3, 0, 4])
     = (Some (ValueError ''malformed settings''), sample_object)
   \<and> sample_filter_type 0 ''delete'' = Inl (KeyError ''id'')
   \<and> DENY \<notin> fst ` set (filter_lists sample_object)
   \<and> fst (add_list sample_create_settings sample_object
        (sample_payload (Some (''delete'', ''public'')) (IntToken 0) [2, 3, 0, 4]))
       = Some (KeyError ''id'')
   \<and> map_of (defaults (snd (add_list sample_create_settings sample_object
        (sample_payload (Some (''delete'', ''public'')) (IntToken 0) [2, 3, 0, 4])))) DENY
       = Some \<lparr>entry_actions = ''delete'', entry_validations = ''public''\<rparr>
   \<and> map_of (filter_lists (snd (add_list sample_create_settings sample_object
        (sample_payload (Some (''delete'', ''public'')) (IntToken 0) [2, 3, 0, 4])))) DENY
       = None"
proof -
  let ?bad = "sample_payload None (IntToken 0) [2, 3, 0, 4]"
  let ?ok = "sample_payload (Some (''delete'', ''public'')) (IntToken 0) [2, 3, 0, 4]"
  have h1: "ld_settings ?bad = Some None
      \<and> sample_create_settings None = Inl (ValueError ''malformed settings'')"
    by (simp add: sample_payload_def sample_create_settings_def)
  have h2: "ld_settings ?ok = Some (Some (''delete'', ''public''))
      \<and> sample_create_settings (Some (''delete'', ''public'')) = Inr (''delete'', ''public'')
      \<and> ld_list_type ?ok = Some (IntToken 0) \<and> ListType_of_value (IntToken 0) = Inr DENY
      \<and> ld_filters ?ok = Some ([2, 3] @ 0 # [4])"
    by (simp add: sample_payload_def sample_create_settings_def)
  have t: "\<forall>filter_data \<in> set [2, 3]. tolerated (filter_type sample_object filter_data ''delete'')"
    by (simp add: sample_object_fields sample_filter_type_def tolerated_def)
  have e: "filter_type sample_object 0 ''delete'' = Inl (KeyError ''id'')
      \<and> (\<forall>m. KeyError ''id'' \<noteq> TypeError m)"
    by (simp add: sample_object_fields sample_filter_type_def)
  have k: "sample_filter_type 0 ''delete'' = Inl (KeyError ''id'')"
    by (simp add: sample_filter_type_def)
  have d: "DENY \<notin> fst ` set (filter_lists sample_object)"
    by (simp add: sample_object_fields)
  from add_list_not_atomic [where ld = ?bad and sd = None and cs = sample_create_settings
      and e = "ValueError ''malformed settings''" and self = sample_object] h1
  have 1: "add_list sample_create_settings sample_object ?bad
     = (Some (ValueError ''malformed settings''), sample_object)"
    by blast
  from add_list_not_atomic [where ld = ?ok and sd = "Some (''delete'', ''public'')"
      and cs = sample_create_settings and self = sample_object and acts = "''delete''"
      and vals = "''public''" and tok = "IntToken 0" and lt = DENY and pre = "[2, 3]"
      and bad = 0 and post = "[4]" and e' = "KeyError ''id''"] h2 t e d
  have 2: "fst (add_list sample_create_settings sample_object ?ok) = Some (KeyError ''id'')
     \<and> map_of (defaults (snd (add_list sample_create_settings sample_object ?ok))) DENY
         = Some \<lparr>entry_actions = ''delete'', entry_validations = ''public''\<rparr>
     \<and> map_of (filter_lists (snd (add_list sample_create_settings sample_object ?ok))) DENY
         = None"
    by blast
  from 1 2 k d show ?thesis by blast
qed

text \<open>
  C10 as stated fails where the list type was added before: after the failed call
  \<^verbatim>\<open>filter_lists\<close> still has an entry for the list type, the partition of the
  earlier call, beside the new defaults.
\<close>

theorem stale_partition_survives_failed_add_list:
  "add_list sample_create_settings sample_object
     (sample_payload (Some (''delete'', ''public'')) (IntToken 0) [2, 4])
   = (None,
      \<lparr>filter_lists = [(DENY, [2, 4])],
       defaults = [(DENY, \<lparr>entry_actions = ''delete'', entry_validations = ''public''\<rparr>)],
       filter_type = sample_filter_type\<rparr>)
   \<and> add_list sample_create_settings
       \<lparr>filter_lists = [(DENY, [2, 4])],
        defaults = [(DENY, \<lparr>entry_actions = ''delete'', entry_validations = ''public''\<rparr>)],
        filter_type = sample_filter_type\<rparr>
       (sample_payload (Some (''ban'', ''everywhere'')) (IntToken 0) [6, 0])
     = (Some (KeyError ''id''),
        \<lparr>filter_lists = [(DENY, [2, 4])],
         defaults = [(DENY, \<lparr>entry_actions = ''ban'', entry_validations = ''everywhere''\<rparr>)],
         filter_type = sample_filter_type\<rparr>)
   \<and> map_of (filter_lists
        \<lparr>filter_lists = [(DENY, [2, 4])],
         defaults = [(DENY, \<lparr>entry_actions = ''ban'', entry_validations = ''everywhere''\<rparr>)],
         filter_type = sample_filter_type\<rparr>) DENY = Some [2, 4]"
proof -
  have b1: "build_filters sample_filter_type ''delete'' [2, 4] [] = Inr [2, 4]"
    by (simp add: sample_filter_type_def)
  have b2: "build_filters sample_filter_type ''ban'' [6, 0] [] = Inl (KeyError ''id'')"
    by (simp add: sample_filter_type_def)
  show ?thesis
    by (simp add: sample_add_list_ok [OF b1] sample_add_list_raises [OF b2]
        sample_object_def FilterList_init_def)
qed

end
